theory Spec2Isabelle
  imports Main "HOL-Library.Multiset"
begin

section \<open>Data model\<close>

text \<open>
  The application is a set of tRPC request handlers over a relational store that is
  reached through the Prisma client (\<^verbatim>\<open>ctx.db\<close>). The tables are the models of
  \<^verbatim>\<open>schema.prisma\<close>; a table is the list of its rows in insertion order. Identifiers are
  the \<^verbatim>\<open>String\<close> primary keys, a \<^verbatim>\<open>DateTime\<close> is a number of milliseconds, and
  a nullable column (\<^verbatim>\<open>String?\<close>) is an \<open>option\<close>. Columns that no handler modelled
  below reads or writes (\<^verbatim>\<open>emailVerified\<close>, \<^verbatim>\<open>coverImage\<close>, \<^verbatim>\<open>bio\<close>,
  \<^verbatim>\<open>updatedAt\<close>, \<^verbatim>\<open>reputationScore\<close>, \<^verbatim>\<open>ipfsHash\<close>, \<^verbatim>\<open>integrityHash\<close>)
  are left out of the rows.
\<close>

type_synonym ident = string
type_synonym datetime = int

record User =
  u_id :: ident
  u_name :: "string option"
  u_email :: "string option"
  u_image :: "string option"
  u_username :: "string option"
  u_hashedPassword :: "string option"
  u_createdAt :: datetime

record Post =
  p_id :: ident
  p_caption :: "string option"
  p_contentUrl :: "string option"
  p_contentType :: string
  p_createdAt :: datetime
  p_userId :: ident
  p_visibility :: string

record Comment =
  c_id :: ident
  c_content :: string
  c_createdAt :: datetime
  c_postId :: ident
  c_userId :: ident

record Like =
  l_id :: ident
  l_createdAt :: datetime
  l_userId :: ident
  l_postId :: "ident option"
  l_commentId :: "ident option"

record Message =
  m_id :: ident
  m_content :: string
  m_encryptedContent :: "string option"
  m_encryptionKey :: "string option"
  m_contentType :: string
  m_createdAt :: datetime
  m_senderId :: ident
  m_receiverId :: ident
  m_readAt :: "datetime option"
  m_groupId :: "ident option"

record Story =
  s_id :: ident
  s_mediaUrl :: string
  s_mediaType :: string
  s_createdAt :: datetime
  s_expiresAt :: datetime
  s_userId :: ident

record StoryView =
  sv_id :: ident
  sv_storyId :: ident
  sv_viewerId :: ident
  sv_viewedAt :: datetime

record Reel =
  r_id :: ident
  r_videoUrl :: string
  r_caption :: "string option"
  r_createdAt :: datetime
  r_userId :: ident

text \<open>
  The \<^verbatim>\<open>type\<close> column of a notification is \<^verbatim>\<open>TEXT\<close> in the migration and is
  declared with the enum \<^verbatim>\<open>NotificationType\<close> in the schema. A row holds the text of
  the column, \<open>NotificationType\<close> lists the members of the enum, and the client checks
  the text against the enum whenever it writes or reads a notification (see the store
  client below).
\<close>

record Notification =
  n_id :: ident
  n_type :: string
  n_content :: string
  n_isRead :: bool
  n_createdAt :: datetime
  n_receiverId :: ident
  n_senderId :: "ident option"
  n_postId :: "ident option"
  n_commentId :: "ident option"
  n_storyId :: "ident option"
  n_reelId :: "ident option"
  n_messageId :: "ident option"

definition NotificationType :: "string list" where
  "NotificationType =
     [''LIKE'', ''COMMENT'', ''FOLLOW'', ''MENTION'', ''STORY_VIEW'', ''REEL_VIEW'',
      ''NEW_POST'', ''NEW_STORY'', ''NEW_REEL'', ''SYSTEM'']"

record Reaction =
  rx_id :: ident
  rx_type :: string
  rx_createdAt :: datetime
  rx_userId :: ident
  rx_postId :: "ident option"
  rx_commentId :: "ident option"
  rx_messageId :: "ident option"
  rx_storyId :: "ident option"
  rx_reelId :: "ident option"

record GroupMember =
  gm_id :: ident
  gm_userId :: ident
  gm_groupId :: ident
  gm_role :: string
  gm_joinedAt :: datetime

record database =
  users :: "User list"
  posts :: "Post list"
  comments :: "Comment list"
  likes :: "Like list"
  messages :: "Message list"
  groupMembers :: "GroupMember list"
  stories :: "Story list"
  storyViews :: "StoryView list"
  reels :: "Reel list"
  notifications :: "Notification list"
  reactions :: "Reaction list"

section \<open>Errors and the request context\<close>

datatype code = UNAUTHORIZED | FORBIDDEN | NOT_FOUND | BAD_REQUEST | INTERNAL_SERVER_ERROR

text \<open>
  \<^verbatim>\<open>throw new TRPCError({code, message})\<close> is the value \<open>TRPCError code message\<close>; a
  plain \<^verbatim>\<open>throw new Error(message)\<close> reaches the caller as a tRPC error with the code
  \<open>INTERNAL_SERVER_ERROR\<close>. A handler returns its result, or the error, together with the
  store as it is when the handler ends.
\<close>

datatype TRPCError = TRPCError code string

fun code_of :: "TRPCError \<Rightarrow> code" where
  "code_of (TRPCError c message) = c"

record ctx =
  session_user_id :: ident

section \<open>The store client\<close>

text \<open>
  The calls of the Prisma client that the handlers use, on a table as a list of rows:
  \<^verbatim>\<open>findFirst\<close> and \<^verbatim>\<open>findUnique\<close> return the first row that satisfies the filter or
  null, \<^verbatim>\<open>create\<close> adds a row, \<^verbatim>\<open>deleteMany\<close> removes the rows that satisfy the
  filter, \<^verbatim>\<open>updateMany\<close> rewrites them, \<^verbatim>\<open>count\<close> counts them. The values that the
  store itself supplies on \<^verbatim>\<open>create\<close>, the \<^verbatim>\<open>cuid()\<close> identifier and the
  \<^verbatim>\<open>now()\<close> timestamp, are arguments of the handler that creates the row.
\<close>

definition findFirst :: "('r \<Rightarrow> bool) \<Rightarrow> 'r list \<Rightarrow> 'r option" where
  "findFirst wh rows = find wh rows"

definition create :: "'r \<Rightarrow> 'r list \<Rightarrow> 'r list" where
  "create row rows = rows @ [row]"

definition deleteMany :: "('r \<Rightarrow> bool) \<Rightarrow> 'r list \<Rightarrow> 'r list" where
  "deleteMany wh rows = filter (\<lambda>r. \<not> wh r) rows"

definition updateMany :: "('r \<Rightarrow> bool) \<Rightarrow> ('r \<Rightarrow> 'r) \<Rightarrow> 'r list \<Rightarrow> 'r list" where
  "updateMany wh upd rows = map (\<lambda>r. if wh r then upd r else r) rows"

definition count_rows :: "('r \<Rightarrow> bool) \<Rightarrow> 'r list \<Rightarrow> nat" where
  "count_rows wh rows = length (filter wh rows)"

text \<open>
  \<^verbatim>\<open>findMany\<close> with \<^verbatim>\<open>where\<close>, \<^verbatim>\<open>orderBy: {createdAt: "desc"}\<close>, \<^verbatim>\<open>take\<close> and an
  optional \<^verbatim>\<open>cursor: {id}\<close>: the rows that satisfy the filter, latest first, starting at
  the row whose identifier is the cursor (that row included, since the handlers pass no
  \<^verbatim>\<open>skip\<close>), at most \<^verbatim>\<open>take\<close> of them. The store answers every query with one and
  the same order of the rows: rows created at the same instant keep their table order.
  A cursor that is not the identifier of a row of the listing gives no rows.
\<close>

definition findMany ::
  "('r \<Rightarrow> bool) \<Rightarrow> ('r \<Rightarrow> datetime) \<Rightarrow> ('r \<Rightarrow> ident) \<Rightarrow> nat \<Rightarrow> ident option \<Rightarrow> 'r list \<Rightarrow> 'r list" where
  "findMany wh createdAt idOf tk cur rows =
     (let ordered = sort_key (\<lambda>r. - createdAt r) (filter wh rows);
          start = (case cur of None \<Rightarrow> ordered
                   | Some i \<Rightarrow> dropWhile (\<lambda>r. idOf r \<noteq> i) ordered)
      in take tk start)"

text \<open>
  The generated client types \<^verbatim>\<open>Notification.type\<close> with the enum of the schema. A
  \<^verbatim>\<open>create\<close> whose \<^verbatim>\<open>type\<close> is no member of the enum is refused before anything is
  written, and a query that would return a row whose \<^verbatim>\<open>type\<close> is no member fails
  when the row is read. Both are errors that no handler catches, so they reach the caller
  with the code \<open>INTERNAL_SERVER_ERROR\<close>; the message is the client's and stands for
  itself here. \<^verbatim>\<open>updateMany\<close> and \<^verbatim>\<open>count\<close> return no rows and so do not read the
  column.
\<close>

definition invalid_enum_value :: TRPCError where
  "invalid_enum_value =
     TRPCError INTERNAL_SERVER_ERROR ''Invalid value for enum NotificationType''"

definition notification_create ::
  "Notification \<Rightarrow> Notification list \<Rightarrow> TRPCError + Notification list" where
  "notification_create row rows =
     (if n_type row \<in> set NotificationType then Inr (create row rows)
      else Inl invalid_enum_value)"

definition notification_findUnique ::
  "ident \<Rightarrow> Notification list \<Rightarrow> TRPCError + Notification option" where
  "notification_findUnique ident rows =
     (case findFirst (\<lambda>n. n_id n = ident) rows of
        None \<Rightarrow> Inr None
      | Some n \<Rightarrow> if n_type n \<in> set NotificationType then Inr (Some n)
                  else Inl invalid_enum_value)"

definition notification_findMany ::
  "(Notification \<Rightarrow> bool) \<Rightarrow> nat \<Rightarrow> ident option \<Rightarrow> Notification list
     \<Rightarrow> TRPCError + Notification list" where
  "notification_findMany wh tk cur rows =
     (let found = findMany wh n_createdAt n_id tk cur rows
      in if list_all (\<lambda>n. n_type n \<in> set NotificationType) found then Inr found
         else Inl invalid_enum_value)"

section \<open>postRouter: like and unlike\<close>

text \<open>
  \<^verbatim>\<open>like\<close>: reject a second like of the same post by the same user, reject an unknown
  post, create the Like row, and create a notification for the owner of the post when
  the owner is not the caller. The notification is passed to the client exactly as the
  handler writes it: \<^verbatim>\<open>type: "like"\<close>, \<^verbatim>\<open>content: "liked your post"\<close>, sender and
  receiver, and no other column (the store would fill \<^verbatim>\<open>isRead\<close> with its default and
  leave the references null). The two writes are separate calls: when the second one
  fails, the Like row of the first one stays.
\<close>

definition like ::
  "ctx \<Rightarrow> ident \<Rightarrow> ident \<Rightarrow> ident \<Rightarrow> datetime \<Rightarrow> database \<Rightarrow> (TRPCError + bool) \<times> database" where
  "like c postId likeId notificationId now db =
     (let userId = session_user_id c;
          existingLike = findFirst (\<lambda>l. l_userId l = userId \<and> l_postId l = Some postId) (likes db)
      in case existingLike of
           Some l \<Rightarrow> (Inl (TRPCError BAD_REQUEST ''Post already liked''), db)
         | None \<Rightarrow>
             (case findFirst (\<lambda>p. p_id p = postId) (posts db) of
                None \<Rightarrow> (Inl (TRPCError NOT_FOUND ''Post not found''), db)
              | Some post \<Rightarrow>
                  (let db1 = db\<lparr>likes := create
                               \<lparr>l_id = likeId, l_createdAt = now, l_userId = userId,
                                l_postId = Some postId, l_commentId = None\<rparr> (likes db)\<rparr>
                   in if p_userId post \<noteq> userId
                      then
                        (case notification_create
                                \<lparr>n_id = notificationId, n_type = ''like'',
                                 n_content = ''liked your post'', n_isRead = False,
                                 n_createdAt = now, n_receiverId = p_userId post,
                                 n_senderId = Some userId, n_postId = None,
                                 n_commentId = None, n_storyId = None,
                                 n_reelId = None, n_messageId = None\<rparr>
                                (notifications db1) of
                           Inl e \<Rightarrow> (Inl e, db1)
                         | Inr rows \<Rightarrow> (Inr True, db1\<lparr>notifications := rows\<rparr>))
                      else (Inr True, db1))))"

text \<open>\<^verbatim>\<open>unlike\<close>: delete every Like row of the caller on the post; nothing is checked.\<close>

definition unlike :: "ctx \<Rightarrow> ident \<Rightarrow> database \<Rightarrow> (TRPCError + bool) \<times> database" where
  "unlike c postId db =
     (let userId = session_user_id c
      in (Inr True,
          db\<lparr>likes := deleteMany (\<lambda>l. l_userId l = userId \<and> l_postId l = Some postId) (likes db)\<rparr>))"

section \<open>notificationRouter\<close>

text \<open>
  \<^verbatim>\<open>include\<close> attaches to a row the row that a foreign key of it names, when the key is
  set and the row exists (\<^verbatim>\<open>select\<close> then narrows it to some of its columns).
\<close>

definition related :: "('r \<Rightarrow> ident) \<Rightarrow> 'r list \<Rightarrow> ident option \<Rightarrow> 'r option" where
  "related idOf rows fk = (case fk of None \<Rightarrow> None | Some k \<Rightarrow> find (\<lambda>r. idOf r = k) rows)"

record NotificationItem =
  ni_row :: Notification
  ni_sender :: "User option"
  ni_post :: "Post option"
  ni_comment :: "Comment option"
  ni_story :: "Story option"
  ni_reel :: "Reel option"
  ni_message :: "Message option"

definition include_relations :: "database \<Rightarrow> Notification \<Rightarrow> NotificationItem" where
  "include_relations db n =
     \<lparr>ni_row = n,
      ni_sender = related u_id (users db) (n_senderId n),
      ni_post = related p_id (posts db) (n_postId n),
      ni_comment = related c_id (comments db) (n_commentId n),
      ni_story = related s_id (stories db) (n_storyId n),
      ni_reel = related r_id (reels db) (n_reelId n),
      ni_message = related m_id (messages db) (n_messageId n)\<rparr>"

text \<open>
  The input of \<^verbatim>\<open>getAll\<close> is \<^verbatim>\<open>{limit, cursor, onlyUnread}\<close>; \<^verbatim>\<open>limit\<close> defaults to
  20 and must lie between 1 and 100, \<^verbatim>\<open>onlyUnread\<close> defaults to false. An input that
  the schema rejects is answered with \<open>BAD_REQUEST\<close> before the handler runs. In the
  handler, \<^verbatim>\<open>!userId\<close> holds of the empty string, and so does \<^verbatim>\<open>cursor ? ... : undefined\<close>
  take an empty cursor for an absent one.
\<close>

record getAll_input =
  ga_limit :: "int option"
  ga_cursor :: "ident option"
  ga_onlyUnread :: "bool option"

record getAll_output =
  items :: "NotificationItem list"
  nextCursor :: "ident option"

definition truthy :: "ident option \<Rightarrow> ident option" where
  "truthy cur = (case cur of None \<Rightarrow> None | Some i \<Rightarrow> if i = [] then None else Some i)"

definition getAll :: "ctx \<Rightarrow> getAll_input \<Rightarrow> database \<Rightarrow> TRPCError + getAll_output" where
  "getAll c input db =
     (let limit = (case ga_limit input of None \<Rightarrow> 20 | Some l \<Rightarrow> l);
          cursor = ga_cursor input;
          onlyUnread = (case ga_onlyUnread input of None \<Rightarrow> False | Some b \<Rightarrow> b);
          userId = session_user_id c
      in if limit < 1 \<or> 100 < limit then Inl (TRPCError BAD_REQUEST ''Invalid input'')
         else if userId = [] then Inl (TRPCError UNAUTHORIZED ''User not authenticated'')
         else
           (case notification_findMany
                   (\<lambda>n. n_receiverId n = userId \<and> (if onlyUnread then \<not> n_isRead n else True))
                   (nat (limit + 1)) (truthy cursor) (notifications db) of
              Inl e \<Rightarrow> Inl e
            | Inr rows \<Rightarrow>
                (let found = map (include_relations db) rows
                 in if limit < int (length found)
                    then Inr \<lparr>items = butlast found,
                              nextCursor = Some (n_id (ni_row (last found)))\<rparr>
                    else Inr \<lparr>items = found, nextCursor = None\<rparr>)))"

text \<open>
  \<^verbatim>\<open>markAsRead\<close>: the caller must be signed in, the notification must exist and be
  addressed to the caller; then \<^verbatim>\<open>update\<close> sets \<^verbatim>\<open>isRead\<close> on the row with that
  identifier and returns the row.
\<close>

definition markAsRead :: "ctx \<Rightarrow> ident \<Rightarrow> database \<Rightarrow> (TRPCError + Notification) \<times> database" where
  "markAsRead c ident db =
     (let userId = session_user_id c
      in if userId = [] then (Inl (TRPCError UNAUTHORIZED ''User not authenticated''), db)
         else
           (case notification_findUnique ident (notifications db) of
              Inl e \<Rightarrow> (Inl e, db)
            | Inr None \<Rightarrow> (Inl (TRPCError NOT_FOUND ''Notification not found''), db)
            | Inr (Some notification) \<Rightarrow>
                if n_receiverId notification \<noteq> userId
                then (Inl (TRPCError FORBIDDEN
                        ''You do not have permission to mark this notification as read''), db)
                else (Inr (notification\<lparr>n_isRead := True\<rparr>),
                      db\<lparr>notifications :=
                           updateMany (\<lambda>n. n_id n = ident) (\<lambda>n. n\<lparr>n_isRead := True\<rparr>)
                             (notifications db)\<rparr>)))"

text \<open>\<^verbatim>\<open>markAllAsRead\<close> returns the number of rows that the bulk update rewrote.\<close>

definition markAllAsRead :: "ctx \<Rightarrow> database \<Rightarrow> (TRPCError + nat) \<times> database" where
  "markAllAsRead c db =
     (let userId = session_user_id c
      in if userId = [] then (Inl (TRPCError UNAUTHORIZED ''User not authenticated''), db)
         else (Inr (count_rows (\<lambda>n. n_receiverId n = userId \<and> \<not> n_isRead n) (notifications db)),
               db\<lparr>notifications :=
                    updateMany (\<lambda>n. n_receiverId n = userId \<and> \<not> n_isRead n)
                      (\<lambda>n. n\<lparr>n_isRead := True\<rparr>) (notifications db)\<rparr>))"

definition getUnreadCount :: "ctx \<Rightarrow> database \<Rightarrow> TRPCError + nat" where
  "getUnreadCount c db =
     (let userId = session_user_id c
      in if userId = [] then Inl (TRPCError UNAUTHORIZED ''User not authenticated'')
         else Inr (count_rows (\<lambda>n. n_receiverId n = userId \<and> \<not> n_isRead n) (notifications db)))"

text \<open>
  The notification list of the client (\<^verbatim>\<open>useInfiniteQuery\<close> with
  \<^verbatim>\<open>getNextPageParam: lastPage.nextCursor\<close>) asks for the first page without a cursor
  and for each further page with the cursor of the page before, until a page has none.
  The loop is bounded by a number of requests; \<open>None\<close> says that the bound was reached
  before the last page.
\<close>

fun paginate ::
  "nat \<Rightarrow> ctx \<Rightarrow> int \<Rightarrow> ident option \<Rightarrow> database \<Rightarrow> (TRPCError + NotificationItem list list) option" where
  "paginate 0 c lim cur db = None"
| "paginate (Suc fuel) c lim cur db =
     (case getAll c \<lparr>ga_limit = Some lim, ga_cursor = cur, ga_onlyUnread = None\<rparr> db of
        Inl e \<Rightarrow> Some (Inl e)
      | Inr page \<Rightarrow>
          (case nextCursor page of
             None \<Rightarrow> Some (Inr [items page])
           | Some next \<Rightarrow>
               (case paginate fuel c lim (Some next) db of
                  None \<Rightarrow> None
                | Some (Inl e) \<Rightarrow> Some (Inl e)
                | Some (Inr pages) \<Rightarrow> Some (Inr (items page # pages)))))"

section \<open>userRouter: register\<close>

text \<open>
  The input schema asks for an e-mail address, a password of at least 8 and a username
  of at least 3 characters. The test of zod for an e-mail address and the salted
  \<^verbatim>\<open>bcrypt\<close> hash are arguments of the model. A user whose e-mail or username is taken
  is refused with a plain \<^verbatim>\<open>Error\<close>.
\<close>

record register_input =
  ri_name :: string
  ri_email :: string
  ri_password :: string
  ri_username :: string

definition register ::
  "(string \<Rightarrow> bool) \<Rightarrow> (string \<Rightarrow> nat \<Rightarrow> string) \<Rightarrow> register_input \<Rightarrow> ident \<Rightarrow> datetime \<Rightarrow> database
     \<Rightarrow> (TRPCError + bool \<times> ident) \<times> database" where
  "register isEmail hash input userId now db =
     (if isEmail (ri_email input) \<and> 8 \<le> length (ri_password input) \<and> 3 \<le> length (ri_username input)
      then
        (case findFirst (\<lambda>u. u_email u = Some (ri_email input) \<or> u_username u = Some (ri_username input))
                (users db) of
           Some existingUser \<Rightarrow>
             (Inl (TRPCError INTERNAL_SERVER_ERROR
                ''User with this email or username already exists''), db)
         | None \<Rightarrow>
             (let hashedPassword = hash (ri_password input) 12
              in (Inr (True, userId),
                  db\<lparr>users := create
                       \<lparr>u_id = userId, u_name = Some (ri_name input), u_email = Some (ri_email input),
                        u_image = None, u_username = Some (ri_username input),
                        u_hashedPassword = Some hashedPassword, u_createdAt = now\<rparr> (users db)\<rparr>)))
      else (Inl (TRPCError BAD_REQUEST ''Invalid input''), db))"

section \<open>storyRouter: viewStory\<close>

text \<open>
  \<^verbatim>\<open>viewStory\<close> reads the story together with the views of it by the caller and creates
  a StoryView row when there is none.
\<close>

definition viewStory ::
  "ctx \<Rightarrow> ident \<Rightarrow> ident \<Rightarrow> datetime \<Rightarrow> database \<Rightarrow> (TRPCError + bool) \<times> database" where
  "viewStory c storyId viewId now db =
     (let userId = session_user_id c
      in case findFirst (\<lambda>s. s_id s = storyId) (stories db) of
           None \<Rightarrow> (Inl (TRPCError NOT_FOUND ''Story not found''), db)
         | Some story \<Rightarrow>
             (let views = filter (\<lambda>v. sv_storyId v = s_id story \<and> sv_viewerId v = userId)
                            (storyViews db)
              in if length views = 0
                 then (Inr True,
                       db\<lparr>storyViews := create
                            \<lparr>sv_id = viewId, sv_storyId = storyId, sv_viewerId = userId,
                             sv_viewedAt = now\<rparr> (storyViews db)\<rparr>)
                 else (Inr True, db)))"

text \<open>The same viewer opening the same story again and again, one request after the other.\<close>

fun viewStory_repeat :: "ctx \<Rightarrow> ident \<Rightarrow> (ident \<times> datetime) list \<Rightarrow> database \<Rightarrow> database" where
  "viewStory_repeat c storyId [] db = db"
| "viewStory_repeat c storyId ((viewId, now) # calls) db =
     viewStory_repeat c storyId calls (snd (viewStory c storyId viewId now db))"

definition views_of :: "database \<Rightarrow> ident \<Rightarrow> ident \<Rightarrow> StoryView list" where
  "views_of db storyId viewerId =
     filter (\<lambda>v. sv_storyId v = storyId \<and> sv_viewerId v = viewerId) (storyViews db)"

text \<open>The unique index \<^verbatim>\<open>StoryView_storyId_viewerId_key\<close>.\<close>

definition StoryView_storyId_viewerId_key :: "database \<Rightarrow> bool" where
  "StoryView_storyId_viewerId_key db =
     distinct (map (\<lambda>v. (sv_storyId v, sv_viewerId v)) (storyViews db))"

section \<open>messageRouter\<close>

text \<open>
  \<^verbatim>\<open>sendToGroup\<close> stores a group message with the sender as the receiver
  (\<^verbatim>\<open>receiverId: senderId, // Placeholder for group messages\<close>). The key and the
  ciphertext of an encrypted message come from \<^verbatim>\<open>crypto\<close> and are an argument.
\<close>

record sendToGroup_input =
  sg_groupId :: ident
  sg_content :: string
  sg_contentType :: "string option"
  sg_encrypted :: "bool option"

definition sendToGroup ::
  "ctx \<Rightarrow> sendToGroup_input \<Rightarrow> (string \<times> string) \<Rightarrow> ident \<Rightarrow> datetime \<Rightarrow> database
     \<Rightarrow> (TRPCError + Message) \<times> database" where
  "sendToGroup c input cipher messageId now db =
     (let contentType = (case sg_contentType input of None \<Rightarrow> ''text'' | Some t \<Rightarrow> t);
          encrypted = (case sg_encrypted input of None \<Rightarrow> False | Some b \<Rightarrow> b);
          senderId = session_user_id c
      in if contentType \<notin> set [''text'', ''image'', ''video'', ''audio'']
         then (Inl (TRPCError BAD_REQUEST ''Invalid input''), db)
         else
           (case findFirst (\<lambda>g. gm_userId g = senderId \<and> gm_groupId g = sg_groupId input)
                   (groupMembers db) of
              None \<Rightarrow> (Inl (TRPCError FORBIDDEN ''You are not a member of this group''), db)
            | Some membership \<Rightarrow>
                (let message =
                       \<lparr>m_id = messageId,
                        m_content = (if encrypted then [] else sg_content input),
                        m_encryptedContent = (if encrypted then Some (snd cipher) else None),
                        m_encryptionKey = (if encrypted then Some (fst cipher) else None),
                        m_contentType = contentType, m_createdAt = now,
                        m_senderId = senderId, m_receiverId = senderId, m_readAt = None,
                        m_groupId = Some (sg_groupId input)\<rparr>
                 in (Inr message, db\<lparr>messages := create message (messages db)\<rparr>))))"

text \<open>
  \<^verbatim>\<open>getConversation\<close> reads one page of the direct messages between the caller and
  \<^verbatim>\<open>input.userId\<close>, latest first, then marks as read the messages that
  \<^verbatim>\<open>input.userId\<close> sent to the caller, and returns the page oldest first.
  \<^verbatim>\<open>new Date()\<close> is the argument \<open>now\<close>.
\<close>

record getConversation_input =
  gc_userId :: ident
  gc_limit :: "int option"
  gc_cursor :: "ident option"

record MessageItem =
  mi_row :: Message
  mi_sender :: "User option"
  mi_reactions :: "(Reaction \<times> User option) list"

record getConversation_output =
  gc_messages :: "MessageItem list"
  gc_nextCursor :: "ident option"

definition include_sender_reactions :: "database \<Rightarrow> Message \<Rightarrow> MessageItem" where
  "include_sender_reactions db m =
     \<lparr>mi_row = m,
      mi_sender = related u_id (users db) (Some (m_senderId m)),
      mi_reactions =
        map (\<lambda>x. (x, related u_id (users db) (Some (rx_userId x))))
          (filter (\<lambda>x. rx_messageId x = Some (m_id m)) (reactions db))\<rparr>"

definition getConversation ::
  "ctx \<Rightarrow> getConversation_input \<Rightarrow> datetime \<Rightarrow> database
     \<Rightarrow> (TRPCError + getConversation_output) \<times> database" where
  "getConversation c input now db =
     (let limit = (case gc_limit input of None \<Rightarrow> 50 | Some l \<Rightarrow> l);
          currentUserId = session_user_id c
      in if limit < 1 \<or> 100 < limit then (Inl (TRPCError BAD_REQUEST ''Invalid input''), db)
         else
           (let found = map (include_sender_reactions db)
                  (findMany
                     (\<lambda>m. (m_senderId m = currentUserId \<and> m_receiverId m = gc_userId input \<or>
                           m_senderId m = gc_userId input \<and> m_receiverId m = currentUserId) \<and>
                          m_groupId m = None)
                     m_createdAt m_id (nat (limit + 1)) (truthy (gc_cursor input)) (messages db));
                db' = db\<lparr>messages :=
                          updateMany
                            (\<lambda>m. m_senderId m = gc_userId input \<and> m_receiverId m = currentUserId \<and>
                                 m_readAt m = None)
                            (\<lambda>m. m\<lparr>m_readAt := Some now\<rparr>) (messages db)\<rparr>
            in if limit < int (length found)
               then (Inr \<lparr>gc_messages = rev (butlast found),
                          gc_nextCursor = Some (m_id (mi_row (last found)))\<rparr>, db')
               else (Inr \<lparr>gc_messages = rev found, gc_nextCursor = None\<rparr>, db')))"

text \<open>
  The number of unread messages of one conversation, as \<^verbatim>\<open>getRecentConversations\<close>
  counts it for the caller and each partner \<^verbatim>\<open>userId\<close>.
\<close>

definition unreadCount :: "ctx \<Rightarrow> ident \<Rightarrow> database \<Rightarrow> nat" where
  "unreadCount c userId db =
     count_rows (\<lambda>m. m_senderId m = userId \<and> m_receiverId m = session_user_id c \<and>
                     m_readAt m = None \<and> m_groupId m = None) (messages db)"

section \<open>Notions used to state the properties of the listing\<close>

text \<open>
  The notifications addressed to a user; a list of rows that is ordered by creation time
  descending; and the listing of the notifications of a user as the store orders it.
\<close>

definition received :: "database \<Rightarrow> ident \<Rightarrow> Notification list" where
  "received db userId = filter (\<lambda>n. n_receiverId n = userId) (notifications db)"

definition descending :: "Notification list \<Rightarrow> bool" where
  "descending rows = sorted_wrt (\<lambda>a b. n_createdAt b \<le> n_createdAt a) rows"

definition latest_first :: "database \<Rightarrow> ident \<Rightarrow> Notification list" where
  "latest_first db userId = sort_key (\<lambda>n. - n_createdAt n) (received db userId)"

text \<open>
  The rows at which a request with the cursor \<open>cur\<close> starts in the listing of a user.
\<close>

definition start_at :: "database \<Rightarrow> ident \<Rightarrow> ident option \<Rightarrow> Notification list" where
  "start_at db userId cur =
     (case truthy cur of None \<Rightarrow> latest_first db userId
      | Some i \<Rightarrow> dropWhile (\<lambda>r. n_id r \<noteq> i) (latest_first db userId))"

section \<open>Example data\<close>

text \<open>
  The scenario of the specification: user \<open>u1\<close> likes the post \<open>p1\<close> of user \<open>u2\<close>.
  \<open>db_p1\<close> is the store before the call, \<open>db_like_only\<close> holds the Like row alone, and
  \<open>db_liked\<close> is the store that the specification expects after the call: the Like row
  and a notification of type \<open>LIKE\<close> for \<open>u2\<close> that names the post.
\<close>

definition empty_db :: database where
  "empty_db = \<lparr>users = [], posts = [], comments = [], likes = [], messages = [],
     groupMembers = [], stories = [], storyViews = [], reels = [], notifications = [],
     reactions = []\<rparr>"

definition post_p1 :: Post where
  "post_p1 = \<lparr>p_id = ''p1'', p_caption = None, p_contentUrl = None, p_contentType = ''text'',
     p_createdAt = 10, p_userId = ''u2'', p_visibility = ''public''\<rparr>"

definition db_p1 :: database where
  "db_p1 = empty_db\<lparr>posts := [post_p1]\<rparr>"

definition like_u1_p1 :: Like where
  "like_u1_p1 = \<lparr>l_id = ''l1'', l_createdAt = 20, l_userId = ''u1'', l_postId = Some ''p1'',
     l_commentId = None\<rparr>"

definition db_like_only :: database where
  "db_like_only = db_p1\<lparr>likes := [like_u1_p1]\<rparr>"

definition notification_n1 :: Notification where
  "notification_n1 = \<lparr>n_id = ''n1'', n_type = ''LIKE'', n_content = ''liked your post'',
     n_isRead = False, n_createdAt = 20, n_receiverId = ''u2'', n_senderId = Some ''u1'',
     n_postId = Some ''p1'', n_commentId = None, n_storyId = None, n_reelId = None,
     n_messageId = None\<rparr>"

definition db_liked :: database where
  "db_liked = db_p1\<lparr>likes := [like_u1_p1], notifications := [notification_n1]\<rparr>"

text \<open>The same store with the type \<open>like\<close> in the notification, as the column can hold it.\<close>

definition db_liked_lowercase :: database where
  "db_liked_lowercase =
     db_p1\<lparr>likes := [like_u1_p1], notifications := [notification_n1\<lparr>n_type := ''like''\<rparr>]\<rparr>"

text \<open>A store with one registered user, and a registration that reuses the e-mail address of that user.\<close>

definition user_u1 :: User where
  "user_u1 = \<lparr>u_id = ''u1'', u_name = Some ''Alice'', u_email = Some ''a@x.io'', u_image = None,
     u_username = Some ''alice'', u_hashedPassword = None, u_createdAt = 1\<rparr>"

definition db_users :: database where
  "db_users = empty_db\<lparr>users := [user_u1]\<rparr>"

definition register_taken_email :: register_input where
  "register_taken_email = \<lparr>ri_name = ''Bob'', ri_email = ''a@x.io'', ri_password = ''12345678'',
     ri_username = ''bob''\<rparr>"

text \<open>A store with one story of \<open>u2\<close> that nobody has viewed.\<close>

definition story_s1 :: Story where
  "story_s1 = \<lparr>s_id = ''s1'', s_mediaUrl = ''m'', s_mediaType = ''image'', s_createdAt = 5,
     s_expiresAt = 500, s_userId = ''u2''\<rparr>"

definition db_story :: database where
  "db_story = empty_db\<lparr>stories := [story_s1]\<rparr>"

text \<open>Three notifications for \<open>u2\<close>, created at 20, 30 and 25, and one for \<open>u1\<close>.\<close>

definition notification_n2 :: Notification where
  "notification_n2 = notification_n1\<lparr>n_id := ''n2'', n_createdAt := 30\<rparr>"

definition notification_n3 :: Notification where
  "notification_n3 = notification_n1\<lparr>n_id := ''n3'', n_createdAt := 25\<rparr>"

definition notification_n4 :: Notification where
  "notification_n4 = notification_n1\<lparr>n_id := ''n4'', n_createdAt := 27, n_receiverId := ''u1'',
     n_senderId := Some ''u2''\<rparr>"

definition db_three :: database where
  "db_three = empty_db\<lparr>notifications :=
     [notification_n1, notification_n2, notification_n4, notification_n3]\<rparr>"

text \<open>
  User \<open>u1\<close> is a member of the group \<open>g1\<close>. \<open>message_m1\<close> is the row that
  \<^verbatim>\<open>sendToGroup\<close> stores for a message of \<open>u1\<close> to the group, and \<open>db_group_sent\<close> is
  the store with that message.
\<close>

definition member_u1_g1 :: GroupMember where
  "member_u1_g1 = \<lparr>gm_id = ''gm1'', gm_userId = ''u1'', gm_groupId = ''g1'', gm_role = ''member'',
     gm_joinedAt = 1\<rparr>"

definition db_group :: database where
  "db_group = empty_db\<lparr>groupMembers := [member_u1_g1]\<rparr>"

definition message_m1 :: Message where
  "message_m1 = \<lparr>m_id = ''m1'', m_content = ''hi'', m_encryptedContent = None,
     m_encryptionKey = None, m_contentType = ''text'', m_createdAt = 100, m_senderId = ''u1'',
     m_receiverId = ''u1'', m_readAt = None, m_groupId = Some ''g1''\<rparr>"

definition db_group_sent :: database where
  "db_group_sent = db_group\<lparr>messages := [message_m1]\<rparr>"

section \<open>Properties of like and unlike\<close>

lemma findFirst_None_iff: "findFirst wh rows = None \<longleftrightarrow> \<not> (\<exists>r \<in> set rows. wh r)"
  by (auto simp: findFirst_def find_None_iff)

lemma findFirst_Some_member: "findFirst wh rows = Some r \<Longrightarrow> r \<in> set rows \<and> wh r"
  by (auto simp: findFirst_def find_Some_iff)

lemma findFirst_exists: "\<exists>r \<in> set rows. wh r \<Longrightarrow> \<exists>r. findFirst wh rows = Some r"
  using findFirst_None_iff [of wh rows] by (cases "findFirst wh rows") auto

text \<open>
  C4. When a Like row of the caller on the post exists, \<^verbatim>\<open>like\<close> fails with
  \<open>BAD_REQUEST\<close> and the store is the one it was called on: no Like row and no
  Notification row is added.
\<close>

theorem like_duplicate_rejected:
  assumes "filter (\<lambda>l. l_userId l = session_user_id c \<and> l_postId l = Some postId) (likes db) \<noteq> []"
  shows "like c postId likeId notificationId now db =
           (Inl (TRPCError BAD_REQUEST ''Post already liked''), db)"
proof -
  from assms have ex: "\<exists>l \<in> set (likes db). l_userId l = session_user_id c \<and> l_postId l = Some postId"
    by (simp add: filter_empty_conv)
  from findFirst_exists [OF ex] obtain l where
    "findFirst (\<lambda>l. l_userId l = session_user_id c \<and> l_postId l = Some postId) (likes db) = Some l"
    by (elim exE)
  then show ?thesis
    by (simp add: like_def)
qed

theorem like_duplicate_rejected_witness:
  "filter (\<lambda>l. l_userId l = ''u1'' \<and> l_postId l = Some ''p1'') (likes db_liked) \<noteq> [] \<and>
   like \<lparr>session_user_id = ''u1''\<rparr> ''p1'' ''l2'' ''n2'' 30 db_liked =
     (Inl (TRPCError BAD_REQUEST ''Post already liked''), db_liked)"
proof -
  have h: "filter (\<lambda>l. l_userId l = session_user_id \<lparr>session_user_id = ''u1''\<rparr> \<and>
             l_postId l = Some ''p1'') (likes db_liked) \<noteq> []"
    by (simp add: db_liked_def like_u1_p1_def)
  from like_duplicate_rejected [OF h, of "''l2''" "''n2''" 30] h show ?thesis
    by simp
qed

text \<open>
  What \<^verbatim>\<open>like\<close> does on a post that exists and that the caller has not liked: it
  stores one Like row of the caller on the post. When the caller owns the post, it
  succeeds and stores nothing else. Otherwise the notification it passes to the client has
  the type \<open>like\<close>, the client refuses it, and the call ends with that error, the Like
  row stored and the notifications as they were.
\<close>

lemma like_effect:
  assumes "filter (\<lambda>l. l_userId l = session_user_id c \<and> l_postId l = Some postId) (likes db) = []"
    and "findFirst (\<lambda>p. p_id p = postId) (posts db) = Some post"
  shows "like c postId likeId notificationId now db =
           (if p_userId post \<noteq> session_user_id c then Inl invalid_enum_value else Inr True,
            db\<lparr>likes := likes db @
                  [\<lparr>l_id = likeId, l_createdAt = now, l_userId = session_user_id c,
                    l_postId = Some postId, l_commentId = None\<rparr>]\<rparr>)"
proof -
  from assms(1) have "findFirst (\<lambda>l. l_userId l = session_user_id c \<and> l_postId l = Some postId)
      (likes db) = None"
    by (simp add: findFirst_None_iff filter_empty_conv)
  with assms(2) show ?thesis
    by (simp add: like_def Let_def create_def notification_create_def NotificationType_def)
qed

text \<open>
  C1. The scenario of the specification, evaluated: \<open>u1\<close> likes \<open>p1\<close>, the post of
  \<open>u2\<close>. The handler stores the Like row and then asks the client to create a
  notification of type \<open>like\<close>, which is no member of the enum \<open>NotificationType\<close>
  (\<open>LIKE\<close> is). The call ends with the error of the client, code
  \<open>INTERNAL_SERVER_ERROR\<close>; the Like row is stored and no Notification row exists. The
  store that the specification expects, \<open>db_liked\<close>, is not reached.
\<close>

theorem like_notification_type_and_post:
  "like \<lparr>session_user_id = ''u1''\<rparr> ''p1'' ''l1'' ''n1'' 20 db_p1 =
     (Inl invalid_enum_value, db_like_only) \<and>
   code_of invalid_enum_value = INTERNAL_SERVER_ERROR \<and>
   likes db_like_only = [like_u1_p1] \<and>
   notifications db_like_only = [] \<and>
   ''like'' \<notin> set NotificationType \<and>
   ''LIKE'' \<in> set NotificationType \<and>
   notifications db_liked = [notification_n1] \<and>
   n_type notification_n1 = ''LIKE'' \<and>
   n_postId notification_n1 = Some ''p1''"
  by (simp add: like_def Let_def findFirst_def create_def notification_create_def
      invalid_enum_value_def db_p1_def db_like_only_def db_liked_def empty_db_def post_p1_def
      like_u1_p1_def notification_n1_def NotificationType_def)

text \<open>
  C7. \<^verbatim>\<open>unlike\<close> succeeds, removes the Like rows of the caller on the post and keeps
  every other Like row; no row of the caller on the post is left; the notifications are
  the ones before the call, and so is every other table: putting the old Like table back
  gives the old store.
\<close>

theorem unlike_removes_only_likes:
  "fst (unlike c postId db) = Inr True \<and>
   likes (snd (unlike c postId db)) =
     filter (\<lambda>l. \<not> (l_userId l = session_user_id c \<and> l_postId l = Some postId)) (likes db) \<and>
   filter (\<lambda>l. l_userId l = session_user_id c \<and> l_postId l = Some postId)
     (likes (snd (unlike c postId db))) = [] \<and>
   notifications (snd (unlike c postId db)) = notifications db \<and>
   (snd (unlike c postId db))\<lparr>likes := likes db\<rparr> = db"
  by (simp add: unlike_def Let_def deleteMany_def filter_empty_conv)

theorem unlike_removes_only_likes_witness:
  "likes (snd (unlike \<lparr>session_user_id = ''u1''\<rparr> ''p1'' db_liked)) = [] \<and>
   notifications (snd (unlike \<lparr>session_user_id = ''u1''\<rparr> ''p1'' db_liked)) = [notification_n1]"
  using unlike_removes_only_likes [of "\<lparr>session_user_id = ''u1''\<rparr>" "''p1''" db_liked]
  by (simp add: db_liked_def like_u1_p1_def)

section \<open>Properties of the notification router\<close>

lemma find_by_id_member:
  "distinct (map idOf rows) \<Longrightarrow> r \<in> set rows \<Longrightarrow> find (\<lambda>x. idOf x = idOf r) rows = Some r"
proof (induction rows)
  case Nil
  then show ?case by simp
next
  case (Cons a rows)
  then show ?case by (cases "a = r") (auto simp: image_iff)
qed

lemma find_updateMany_by_id:
  assumes "\<And>x. idOf (upd x) = idOf x"
  shows "find (\<lambda>x. idOf x = i) (updateMany (\<lambda>x. idOf x = i) upd rows) =
         map_option upd (find (\<lambda>x. idOf x = i) rows)"
  by (induction rows) (simp_all add: updateMany_def assms)

lemma filter_updateMany_other_ids:
  assumes "\<And>x. idOf (upd x) = idOf x"
  shows "filter (\<lambda>x. idOf x \<noteq> i) (updateMany (\<lambda>x. idOf x = i) upd rows) =
         filter (\<lambda>x. idOf x \<noteq> i) rows"
  by (induction rows) (simp_all add: updateMany_def assms)

lemma notification_findUnique_member:
  assumes "n \<in> set rows" and "distinct (map n_id rows)" and "n_type n \<in> set NotificationType"
  shows "notification_findUnique (n_id n) rows = Inr (Some n)"
  using assms by (simp add: notification_findUnique_def findFirst_def find_by_id_member)

text \<open>
  A row whose type is no member of the enum cannot be read: \<^verbatim>\<open>markAsRead\<close>, by the
  receiver or by anybody else, and \<^verbatim>\<open>getAll\<close> end with the error of the client and
  leave the store as it is.
\<close>

lemma unreadable_type_fails:
  "markAsRead \<lparr>session_user_id = ''u1''\<rparr> ''n1'' db_liked_lowercase =
     (Inl invalid_enum_value, db_liked_lowercase) \<and>
   markAsRead \<lparr>session_user_id = ''u2''\<rparr> ''n1'' db_liked_lowercase =
     (Inl invalid_enum_value, db_liked_lowercase) \<and>
   getAll \<lparr>session_user_id = ''u2''\<rparr>
     \<lparr>ga_limit = Some 2, ga_cursor = None, ga_onlyUnread = None\<rparr> db_liked_lowercase =
     Inl invalid_enum_value"
  by (simp add: markAsRead_def getAll_def notification_findUnique_def notification_findMany_def
      findMany_def findFirst_def truthy_def Let_def db_liked_lowercase_def db_p1_def empty_db_def
      notification_n1_def NotificationType_def)

text \<open>
  C5. Let \<open>n\<close> be a notification of the store (whose identifiers are a primary key),
  with a type of the enum, and let the caller be signed in. If \<open>n\<close> is addressed to the
  caller, \<^verbatim>\<open>markAsRead\<close> returns \<open>n\<close> with \<^verbatim>\<open>isRead\<close> true, the row with the
  identifier of \<open>n\<close> is then that row, and no other row and no other table has changed.
  Otherwise the call fails with \<open>FORBIDDEN\<close> and the store, so the read-state of \<open>n\<close>,
  is unchanged.
\<close>

theorem markAsRead_receiver_only:
  assumes "n \<in> set (notifications db)"
    and "distinct (map n_id (notifications db))"
    and "n_type n \<in> set NotificationType"
    and "session_user_id c \<noteq> []"
  shows "(if n_receiverId n = session_user_id c
          then fst (markAsRead c (n_id n) db) = Inr (n\<lparr>n_isRead := True\<rparr>) \<and>
               findFirst (\<lambda>r. n_id r = n_id n) (notifications (snd (markAsRead c (n_id n) db))) =
                 Some (n\<lparr>n_isRead := True\<rparr>) \<and>
               filter (\<lambda>r. n_id r \<noteq> n_id n) (notifications (snd (markAsRead c (n_id n) db))) =
                 filter (\<lambda>r. n_id r \<noteq> n_id n) (notifications db) \<and>
               (snd (markAsRead c (n_id n) db))\<lparr>notifications := notifications db\<rparr> = db
          else markAsRead c (n_id n) db =
                 (Inl (TRPCError FORBIDDEN
                    ''You do not have permission to mark this notification as read''), db))"
proof -
  have read: "notification_findUnique (n_id n) (notifications db) = Inr (Some n)"
    using assms(1-3) by (rule notification_findUnique_member)
  have found: "find (\<lambda>r. n_id r = n_id n) (notifications db) = Some n"
    using assms(1,2) by (simp add: find_by_id_member)
  show ?thesis
    using read found assms(4)
    by (simp add: markAsRead_def Let_def findFirst_def find_updateMany_by_id
        filter_updateMany_other_ids)
qed

theorem markAsRead_receiver_only_witness:
  "markAsRead \<lparr>session_user_id = ''u1''\<rparr> ''n1'' db_liked =
     (Inl (TRPCError FORBIDDEN
        ''You do not have permission to mark this notification as read''), db_liked) \<and>
   fst (markAsRead \<lparr>session_user_id = ''u2''\<rparr> ''n1'' db_liked) =
     Inr (notification_n1\<lparr>n_isRead := True\<rparr>) \<and>
   findFirst (\<lambda>r. n_id r = ''n1'')
     (notifications (snd (markAsRead \<lparr>session_user_id = ''u2''\<rparr> ''n1'' db_liked))) =
     Some (notification_n1\<lparr>n_isRead := True\<rparr>)"
proof -
  have a: "notification_n1 \<in> set (notifications db_liked)"
    by (simp add: db_liked_def)
  have b: "distinct (map n_id (notifications db_liked))"
    by (simp add: db_liked_def)
  have t: "n_type notification_n1 \<in> set NotificationType"
    by (simp add: notification_n1_def NotificationType_def)
  have c1: "session_user_id \<lparr>session_user_id = ''u1''\<rparr> \<noteq> []"
    by simp
  have c2: "session_user_id \<lparr>session_user_id = ''u2''\<rparr> \<noteq> []"
    by simp
  from markAsRead_receiver_only [OF a b t c1] markAsRead_receiver_only [OF a b t c2]
  show ?thesis
    by (simp add: notification_n1_def)
qed

text \<open>
  C6. For a signed-in caller, \<^verbatim>\<open>getUnreadCount\<close> right after \<^verbatim>\<open>markAllAsRead\<close>
  returns 0. The bulk update sets \<^verbatim>\<open>isRead\<close> on the unread rows addressed to the caller
  and on no other row, and the count is the number of unread rows addressed to the
  caller.
\<close>

theorem markAllAsRead_then_getUnreadCount:
  assumes "session_user_id c \<noteq> []"
  shows "getUnreadCount c (snd (markAllAsRead c db)) = Inr 0 \<and>
         notifications (snd (markAllAsRead c db)) =
           map (\<lambda>n. if n_receiverId n = session_user_id c \<and> \<not> n_isRead n
                     then n\<lparr>n_isRead := True\<rparr> else n) (notifications db) \<and>
         getUnreadCount c db =
           Inr (length (filter (\<lambda>n. n_receiverId n = session_user_id c \<and> \<not> n_isRead n)
                  (notifications db)))"
  using assms
  by (simp add: getUnreadCount_def markAllAsRead_def Let_def count_rows_def updateMany_def
      filter_empty_conv)

theorem markAllAsRead_then_getUnreadCount_witness:
  "getUnreadCount \<lparr>session_user_id = ''u2''\<rparr> db_liked = Inr 1 \<and>
   getUnreadCount \<lparr>session_user_id = ''u2''\<rparr>
     (snd (markAllAsRead \<lparr>session_user_id = ''u2''\<rparr> db_liked)) = Inr 0"
proof -
  have a: "session_user_id \<lparr>session_user_id = ''u2''\<rparr> \<noteq> []"
    by simp
  from markAllAsRead_then_getUnreadCount [OF a, of db_liked] show ?thesis
    by (simp add: db_liked_def notification_n1_def)
qed

section \<open>Properties of register\<close>

text \<open>
  C8. When a user with the e-mail address or with the username of the input exists,
  \<^verbatim>\<open>register\<close> returns an error and the store it was called on: the duplicate error
  for an input that passes the schema, the validation error otherwise. No User row is
  created.
\<close>

theorem register_taken_rejected:
  assumes "filter (\<lambda>u. u_email u = Some (ri_email input) \<or> u_username u = Some (ri_username input))
             (users db) \<noteq> []"
  shows "register isEmail hash input userId now db =
           (Inl (if isEmail (ri_email input) \<and> 8 \<le> length (ri_password input) \<and>
                    3 \<le> length (ri_username input)
                 then TRPCError INTERNAL_SERVER_ERROR
                        ''User with this email or username already exists''
                 else TRPCError BAD_REQUEST ''Invalid input''), db)"
proof -
  from assms have ex: "\<exists>u \<in> set (users db).
      u_email u = Some (ri_email input) \<or> u_username u = Some (ri_username input)"
    by (simp add: filter_empty_conv)
  from findFirst_exists [OF ex] obtain u where
    "findFirst (\<lambda>u. u_email u = Some (ri_email input) \<or> u_username u = Some (ri_username input))
       (users db) = Some u"
    by (elim exE)
  then show ?thesis
    by (simp add: register_def)
qed

theorem register_taken_rejected_witness:
  "register (\<lambda>s. CHR ''@'' \<in> set s) (\<lambda>p n. p) register_taken_email ''u9'' 40 db_users =
     (Inl (TRPCError INTERNAL_SERVER_ERROR ''User with this email or username already exists''),
      db_users) \<and>
   users db_users = [user_u1]"
proof -
  have h: "filter (\<lambda>u. u_email u = Some (ri_email register_taken_email) \<or>
              u_username u = Some (ri_username register_taken_email)) (users db_users) \<noteq> []"
    by (simp add: db_users_def user_u1_def register_taken_email_def)
  from register_taken_rejected [OF h, of "\<lambda>s. CHR ''@'' \<in> set s" "\<lambda>p n. p" "''u9''" 40]
  show ?thesis
    by (simp add: register_taken_email_def db_users_def)
qed

section \<open>Properties of viewStory\<close>

lemma viewStory_state:
  "snd (viewStory c storyId viewId now db) =
     (if findFirst (\<lambda>s. s_id s = storyId) (stories db) \<noteq> None \<and>
         views_of db storyId (session_user_id c) = []
      then db\<lparr>storyViews := storyViews db @
             [\<lparr>sv_id = viewId, sv_storyId = storyId, sv_viewerId = session_user_id c,
               sv_viewedAt = now\<rparr>]\<rparr>
      else db)"
proof (cases "findFirst (\<lambda>s. s_id s = storyId) (stories db)")
  case None
  then show ?thesis by (simp add: viewStory_def)
next
  case (Some story)
  then have "s_id story = storyId"
    using findFirst_Some_member [of "\<lambda>s. s_id s = storyId" "stories db" story] by simp
  with Some show ?thesis
    by (simp add: viewStory_def Let_def views_of_def create_def)
qed

lemma viewStory_twice:
  "snd (viewStory c storyId viewId' now' (snd (viewStory c storyId viewId now db))) =
   snd (viewStory c storyId viewId now db)"
  by (simp add: viewStory_state views_of_def)

lemma viewStory_repeat_after_first:
  "viewStory_repeat c storyId calls (snd (viewStory c storyId viewId now db)) =
   snd (viewStory c storyId viewId now db)"
  by (induction calls) (auto simp: viewStory_twice)

lemma views_of_at_most_one:
  "StoryView_storyId_viewerId_key db \<Longrightarrow> length (views_of db storyId viewerId) \<le> 1"
  unfolding StoryView_storyId_viewerId_key_def views_of_def
proof (induction "storyViews db" arbitrary: db)
  case Nil
  then show ?case by simp
next
  case (Cons v vs)
  from Cons.hyps(2) [symmetric] Cons.prems Cons.hyps(1) [of "db\<lparr>storyViews := vs\<rparr>"]
  show ?case
    by (auto simp: filter_empty_conv image_iff)
qed

lemma viewStory_keeps_key:
  assumes "StoryView_storyId_viewerId_key db"
  shows "StoryView_storyId_viewerId_key (snd (viewStory c storyId viewId now db))"
  using assms
  by (auto simp: viewStory_state StoryView_storyId_viewerId_key_def views_of_def
      filter_empty_conv image_iff)

lemma viewStory_repeat_keeps_key:
  "StoryView_storyId_viewerId_key db \<Longrightarrow>
   StoryView_storyId_viewerId_key (viewStory_repeat c storyId calls db)"
proof (induction calls arbitrary: db)
  case Nil
  then show ?case by simp
next
  case (Cons call calls)
  obtain viewId now where call: "call = (viewId, now)"
    by (cases call)
  from Cons.prems have "StoryView_storyId_viewerId_key (snd (viewStory c storyId viewId now db))"
    by (rule viewStory_keeps_key)
  then show ?case
    by (simp add: call Cons.IH)
qed

text \<open>
  C9. In a store that satisfies the unique index on (story, viewer), \<^verbatim>\<open>viewStory\<close>
  keeps the index, and so does any number of calls by the same viewer on the same story:
  every pair of a story and a viewer has at most one StoryView row. The call adds a row
  for the caller exactly when the story exists and the caller has no row for it, and
  changes nothing otherwise; further calls by the same viewer on the same story, whatever
  identifiers and times the store supplies, leave the store as the first call left it.
\<close>

theorem viewStory_one_view_per_viewer:
  assumes "StoryView_storyId_viewerId_key db"
  shows "StoryView_storyId_viewerId_key (snd (viewStory c storyId viewId now db)) \<and>
         StoryView_storyId_viewerId_key (viewStory_repeat c storyId calls db) \<and>
         length (views_of (viewStory_repeat c storyId calls db) s v) \<le> 1 \<and>
         snd (viewStory c storyId viewId now db) =
           (if findFirst (\<lambda>s. s_id s = storyId) (stories db) \<noteq> None \<and>
               views_of db storyId (session_user_id c) = []
            then db\<lparr>storyViews := storyViews db @
                   [\<lparr>sv_id = viewId, sv_storyId = storyId, sv_viewerId = session_user_id c,
                     sv_viewedAt = now\<rparr>]\<rparr>
            else db) \<and>
         viewStory_repeat c storyId calls (snd (viewStory c storyId viewId now db)) =
           snd (viewStory c storyId viewId now db)"
proof (intro conjI)
  show "StoryView_storyId_viewerId_key (snd (viewStory c storyId viewId now db))"
    using assms by (rule viewStory_keeps_key)
  show key: "StoryView_storyId_viewerId_key (viewStory_repeat c storyId calls db)"
    using assms by (rule viewStory_repeat_keeps_key)
  show "length (views_of (viewStory_repeat c storyId calls db) s v) \<le> 1"
    using key by (rule views_of_at_most_one)
  show "snd (viewStory c storyId viewId now db) =
           (if findFirst (\<lambda>s. s_id s = storyId) (stories db) \<noteq> None \<and>
               views_of db storyId (session_user_id c) = []
            then db\<lparr>storyViews := storyViews db @
                   [\<lparr>sv_id = viewId, sv_storyId = storyId, sv_viewerId = session_user_id c,
                     sv_viewedAt = now\<rparr>]\<rparr>
            else db)"
    by (rule viewStory_state)
  show "viewStory_repeat c storyId calls (snd (viewStory c storyId viewId now db)) =
           snd (viewStory c storyId viewId now db)"
    by (rule viewStory_repeat_after_first)
qed

theorem viewStory_one_view_per_viewer_witness:
  "storyViews
     (viewStory_repeat \<lparr>session_user_id = ''u1''\<rparr> ''s1'' [(''v2'', 60), (''v3'', 70)]
        (snd (viewStory \<lparr>session_user_id = ''u1''\<rparr> ''s1'' ''v1'' 50 db_story))) =
   [\<lparr>sv_id = ''v1'', sv_storyId = ''s1'', sv_viewerId = ''u1'', sv_viewedAt = 50\<rparr>]"
proof -
  have h: "StoryView_storyId_viewerId_key db_story"
    by (simp add: StoryView_storyId_viewerId_key_def db_story_def empty_db_def)
  have none_yet: "findFirst (\<lambda>s. s_id s = ''s1'') (stories db_story) \<noteq> None \<and>
      views_of db_story ''s1'' ''u1'' = []"
    by (simp add: db_story_def empty_db_def story_s1_def findFirst_def views_of_def)
  note run = viewStory_one_view_per_viewer [OF h, of "\<lparr>session_user_id = ''u1''\<rparr>" "''s1''"
      "''v1''" 50 "[(''v2'', 60), (''v3'', 70)]" "''s1''" "''u1''"]
  from run none_yet have first:
    "snd (viewStory \<lparr>session_user_id = ''u1''\<rparr> ''s1'' ''v1'' 50 db_story) =
       db_story\<lparr>storyViews := storyViews db_story @
         [\<lparr>sv_id = ''v1'', sv_storyId = ''s1'', sv_viewerId = ''u1'', sv_viewedAt = 50\<rparr>]\<rparr>"
    by simp
  from run have again:
    "viewStory_repeat \<lparr>session_user_id = ''u1''\<rparr> ''s1'' [(''v2'', 60), (''v3'', 70)]
       (snd (viewStory \<lparr>session_user_id = ''u1''\<rparr> ''s1'' ''v1'' 50 db_story)) =
     snd (viewStory \<lparr>session_user_id = ''u1''\<rparr> ''s1'' ''v1'' 50 db_story)"
    by (elim conjE)
  have "storyViews
      (viewStory_repeat \<lparr>session_user_id = ''u1''\<rparr> ''s1'' [(''v2'', 60), (''v3'', 70)]
         (snd (viewStory \<lparr>session_user_id = ''u1''\<rparr> ''s1'' ''v1'' 50 db_story))) =
    storyViews (snd (viewStory \<lparr>session_user_id = ''u1''\<rparr> ''s1'' ''v1'' 50 db_story))"
    by (simp only: again)
  also have "\<dots> = [\<lparr>sv_id = ''v1'', sv_storyId = ''s1'', sv_viewerId = ''u1'', sv_viewedAt = 50\<rparr>]"
    by (simp only: first) (simp add: db_story_def empty_db_def)
  finally show ?thesis .
qed

section \<open>Properties of getAll and of the pagination loop\<close>

lemma descending_latest_first: "descending (latest_first db userId)"
proof -
  have "sorted (map (\<lambda>n. - n_createdAt n) (latest_first db userId))"
    by (simp add: latest_first_def)
  then show ?thesis
    by (simp add: descending_def sorted_map sorted_wrt_map)
qed

lemma mset_latest_first: "mset (latest_first db userId) = mset (received db userId)"
  by (simp add: latest_first_def)

lemma length_latest_first: "length (latest_first db userId) = length (received db userId)"
  by (simp add: latest_first_def)

lemma butlast_take_Suc: "n < length xs \<Longrightarrow> butlast (take (Suc n) xs) = take n xs"
  by (simp add: butlast_take)

lemma last_take_Suc: "n < length xs \<Longrightarrow> last (take (Suc n) xs) = xs ! n"
  by (simp add: take_Suc_conv_app_nth)

lemma list_all_latest_first:
  "list_all P (latest_first db userId) = list_all P (received db userId)"
  by (simp add: list_all_iff latest_first_def)

lemma list_all_take_start_at:
  assumes "list_all P (latest_first db userId)"
  shows "list_all P (take k (start_at db userId cur))"
proof -
  have "set (take k (start_at db userId cur)) \<subseteq> set (latest_first db userId)"
    by (auto simp: start_at_def split: option.split dest: in_set_takeD set_dropWhileD)
  with assms show ?thesis
    by (auto simp: list_all_iff)
qed

lemma getAll_page:
  assumes "1 \<le> L" and "L \<le> 100" and "session_user_id c \<noteq> []"
    and "list_all (\<lambda>n. n_type n \<in> set NotificationType) (latest_first db (session_user_id c))"
  shows "getAll c \<lparr>ga_limit = Some L, ga_cursor = cur, ga_onlyUnread = None\<rparr> db =
         Inr \<lparr>items = map (include_relations db) (take (nat L) (start_at db (session_user_id c) cur)),
              nextCursor = (if nat L < length (start_at db (session_user_id c) cur)
                            then Some (n_id (start_at db (session_user_id c) cur ! nat L))
                            else None)\<rparr>"
proof -
  let ?ys = "start_at db (session_user_id c) cur"
  have "findMany (\<lambda>n. n_receiverId n = session_user_id c \<and> True) n_createdAt n_id
      (nat (L + 1)) (truthy cur) (notifications db) = take (Suc (nat L)) ?ys"
    using assms(1)
    by (simp add: findMany_def start_at_def latest_first_def received_def nat_add_distrib
        split: option.split)
  then have found: "notification_findMany (\<lambda>n. n_receiverId n = session_user_id c \<and> True)
      (nat (L + 1)) (truthy cur) (notifications db) = Inr (take (Suc (nat L)) ?ys)"
    using list_all_take_start_at [OF assms(4), of "Suc (nat L)" cur]
    by (simp add: notification_findMany_def)
  show ?thesis
  proof (cases "nat L < length ?ys")
    case True
    then have len: "L < int (length (take (Suc (nat L)) ?ys))"
      using assms(1) by simp
    from True have "take (Suc (nat L)) ?ys \<noteq> []"
      by auto
    then have "last (map (include_relations db) (take (Suc (nat L)) ?ys)) =
        include_relations db (?ys ! nat L)"
      using True by (simp add: last_map last_take_Suc)
    moreover have "butlast (map (include_relations db) (take (Suc (nat L)) ?ys)) =
        map (include_relations db) (take (nat L) ?ys)"
      using True by (simp add: map_butlast [symmetric] butlast_take_Suc)
    ultimately show ?thesis
      using assms(1-3) True len found
      by (simp add: getAll_def Let_def include_relations_def)
  next
    case False
    then have "take (Suc (nat L)) ?ys = ?ys" "take (nat L) ?ys = ?ys"
      by simp_all
    moreover from False have "\<not> L < int (length ?ys)"
      using assms(1) by linarith
    ultimately show ?thesis
      using assms(1-3) False found
      by (simp add: getAll_def Let_def)
  qed
qed

lemma ni_row_include_relations: "ni_row \<circ> include_relations db = id"
  by (rule ext) (simp add: include_relations_def)

lemma descending_take: "descending rows \<Longrightarrow> descending (take k rows)"
  by (simp add: descending_def)

lemma received_db_three:
  "received db_three ''u2'' = [notification_n1, notification_n2, notification_n3]"
  by (simp add: received_def db_three_def notification_n1_def notification_n2_def
      notification_n3_def notification_n4_def)

text \<open>
  C2. For a signed-in caller whose notifications carry types of the enum, and a limit
  \<open>L\<close> between 1 and 100, \<^verbatim>\<open>getAll({limit: L})\<close> succeeds. With \<open>N\<close> the number of notifications addressed to the caller, the page
  has \<open>min L N\<close> items, ordered by creation time descending, and a next cursor is
  returned exactly when \<open>N > L\<close>. There is a listing of all notifications of the caller,
  ordered by creation time descending, of which the page is the first \<open>L\<close> rows, and
  the cursor, when present, is the identifier of the row that follows them in it.
\<close>

theorem getAll_first_page:
  assumes "1 \<le> L" and "L \<le> 100" and "session_user_id c \<noteq> []"
    and "list_all (\<lambda>n. n_type n \<in> set NotificationType) (received db (session_user_id c))"
  shows "\<exists>page listing.
           getAll c \<lparr>ga_limit = Some L, ga_cursor = None, ga_onlyUnread = None\<rparr> db = Inr page \<and>
           length (items page) = min (nat L) (length (received db (session_user_id c))) \<and>
           descending (map ni_row (items page)) \<and>
           (nextCursor page \<noteq> None) = (nat L < length (received db (session_user_id c))) \<and>
           mset listing = mset (received db (session_user_id c)) \<and>
           descending listing \<and>
           map ni_row (items page) = take (nat L) listing \<and>
           nextCursor page =
             (if nat L < length listing then Some (n_id (listing ! nat L)) else None)"
proof -
  let ?u = "session_user_id c"
  let ?listing = "latest_first db ?u"
  let ?page = "\<lparr>items = map (include_relations db) (take (nat L) ?listing),
                nextCursor = (if nat L < length ?listing then Some (n_id (?listing ! nat L))
                              else None)\<rparr>"
  have start: "start_at db ?u None = ?listing"
    by (simp add: start_at_def truthy_def)
  have valid: "list_all (\<lambda>n. n_type n \<in> set NotificationType) ?listing"
    using assms(4) by (simp only: list_all_latest_first)
  have "getAll c \<lparr>ga_limit = Some L, ga_cursor = None, ga_onlyUnread = None\<rparr> db = Inr ?page"
    using getAll_page [OF assms(1-3) valid, of None] by (simp only: start)
  moreover have "length (items ?page) = min (nat L) (length (received db ?u))"
    by (simp add: length_latest_first min.commute)
  moreover have "descending (map ni_row (items ?page))"
    by (simp add: ni_row_include_relations descending_take descending_latest_first)
  moreover have "(nextCursor ?page \<noteq> None) = (nat L < length (received db ?u))"
    by (simp add: length_latest_first)
  moreover have "map ni_row (items ?page) = take (nat L) ?listing"
    by (simp add: ni_row_include_relations)
  moreover have "nextCursor ?page =
      (if nat L < length ?listing then Some (n_id (?listing ! nat L)) else None)"
    by simp
  ultimately show ?thesis
    using mset_latest_first [of db ?u] descending_latest_first [of db ?u]
    by blast
qed

theorem getAll_first_page_witness:
  "\<exists>page. getAll \<lparr>session_user_id = ''u2''\<rparr>
             \<lparr>ga_limit = Some 2, ga_cursor = None, ga_onlyUnread = None\<rparr> db_three = Inr page \<and>
          length (items page) = 2 \<and> nextCursor page \<noteq> None"
proof -
  have lim: "(1::int) \<le> 2" "(2::int) \<le> 100"
    by simp_all
  have auth: "session_user_id \<lparr>session_user_id = ''u2''\<rparr> \<noteq> []"
    by simp
  have valid: "list_all (\<lambda>n. n_type n \<in> set NotificationType)
      (received db_three (session_user_id \<lparr>session_user_id = ''u2''\<rparr>))"
    by (simp add: received_db_three notification_n1_def notification_n2_def notification_n3_def
        NotificationType_def)
  from getAll_first_page [OF lim auth valid] obtain page where
    "getAll \<lparr>session_user_id = ''u2''\<rparr>
       \<lparr>ga_limit = Some 2, ga_cursor = None, ga_onlyUnread = None\<rparr> db_three = Inr page"
    "length (items page) =
       min (nat 2) (length (received db_three (session_user_id \<lparr>session_user_id = ''u2''\<rparr>)))"
    "(nextCursor page \<noteq> None) =
       (nat 2 < length (received db_three (session_user_id \<lparr>session_user_id = ''u2''\<rparr>)))"
    by blast
  then show ?thesis
    by (simp add: received_db_three)
qed

lemma dropWhile_at_suffix:
  assumes "distinct (map f (pre @ y # ys))"
  shows "dropWhile (\<lambda>r. f r \<noteq> f y) (pre @ y # ys) = y # ys"
proof -
  from assms have "f y \<notin> f ` set pre"
    by simp
  then have "\<And>x. x \<in> set pre \<Longrightarrow> f x \<noteq> f y"
    by (metis imageI)
  then have "dropWhile (\<lambda>r. f r \<noteq> f y) (pre @ y # ys) = dropWhile (\<lambda>r. f r \<noteq> f y) (y # ys)"
    by (simp add: dropWhile_append2)
  then show ?thesis
    by simp
qed

lemma start_at_next:
  assumes dist: "distinct (map n_id (latest_first db u))"
    and nonempty: "[] \<notin> set (map n_id (latest_first db u))"
    and split: "latest_first db u = pre @ ys"
    and more: "k < length ys"
  shows "start_at db u (Some (n_id (ys ! k))) = drop k ys"
proof -
  from more have ys: "ys = take k ys @ ys ! k # drop (Suc k) ys"
    by (simp add: id_take_nth_drop [symmetric])
  then have whole: "latest_first db u = (pre @ take k ys) @ ys ! k # drop (Suc k) ys"
    using split by simp
  from more split have "ys ! k \<in> set (latest_first db u)"
    by simp
  with nonempty have "n_id (ys ! k) \<noteq> []"
    by force
  then have "start_at db u (Some (n_id (ys ! k))) =
      dropWhile (\<lambda>r. n_id r \<noteq> n_id (ys ! k)) (latest_first db u)"
    by (simp add: start_at_def truthy_def)
  also have "\<dots> = ys ! k # drop (Suc k) ys"
    using dist dropWhile_at_suffix [of n_id "pre @ take k ys" "ys ! k" "drop (Suc k) ys"]
    by (simp only: whole [symmetric])
  also have "\<dots> = drop k ys"
    using more by (simp add: Cons_nth_drop_Suc)
  finally show ?thesis .
qed

lemma paginate_from:
  assumes lim: "1 \<le> L" "L \<le> 100"
    and auth: "session_user_id c \<noteq> []"
    and dist: "distinct (map n_id (latest_first db (session_user_id c)))"
    and nonempty: "[] \<notin> set (map n_id (latest_first db (session_user_id c)))"
    and valid: "list_all (\<lambda>n. n_type n \<in> set NotificationType) (latest_first db (session_user_id c))"
  shows "latest_first db (session_user_id c) = pre @ start_at db (session_user_id c) cur \<Longrightarrow>
         length (start_at db (session_user_id c) cur) < fuel \<Longrightarrow>
         \<exists>pages. paginate fuel c L cur db = Some (Inr pages) \<and>
                 concat pages = map (include_relations db) (start_at db (session_user_id c) cur) \<and>
                 list_all (\<lambda>p. length p \<le> nat L) pages"
proof (induction fuel arbitrary: cur pre)
  case 0
  then show ?case by simp
next
  case (Suc fuel)
  let ?u = "session_user_id c"
  let ?ys = "start_at db ?u cur"
  note page = getAll_page [OF lim auth valid, of cur]
  show ?case
  proof (cases "nat L < length ?ys")
    case True
    let ?nc = "Some (n_id (?ys ! nat L))"
    have nc: "start_at db ?u ?nc = drop (nat L) ?ys"
      using dist nonempty Suc.prems(1) True by (rule start_at_next)
    have "latest_first db ?u = (pre @ take (nat L) ?ys) @ start_at db ?u ?nc"
      using Suc.prems(1) by (simp add: nc)
    moreover have "length (start_at db ?u ?nc) < fuel"
      using Suc.prems(2) lim(1) True by (simp add: nc)
    ultimately obtain pages where rest: "paginate fuel c L ?nc db = Some (Inr pages)"
      "concat pages = map (include_relations db) (start_at db ?u ?nc)"
      "list_all (\<lambda>p. length p \<le> nat L) pages"
      using Suc.IH by blast
    have "paginate (Suc fuel) c L cur db =
        Some (Inr (map (include_relations db) (take (nat L) ?ys) # pages))"
      using True rest(1) by (simp add: page)
    moreover have "concat (map (include_relations db) (take (nat L) ?ys) # pages) =
        map (include_relations db) ?ys"
      by (simp add: rest(2) nc map_append [symmetric] del: map_append)
    moreover have "list_all (\<lambda>p. length p \<le> nat L)
        (map (include_relations db) (take (nat L) ?ys) # pages)"
      using rest(3) by simp
    ultimately show ?thesis
      by blast
  next
    case False
    then have "paginate (Suc fuel) c L cur db = Some (Inr [map (include_relations db) ?ys])"
      by (simp add: page)
    moreover from False have "length (map (include_relations db) ?ys) \<le> nat L"
      by simp
    ultimately show ?thesis
      by simp
  qed
qed

lemma distinct_ids_latest_first:
  assumes "distinct (map n_id (notifications db))"
  shows "distinct (map n_id (latest_first db u))"
proof -
  have "mset (map n_id (latest_first db u)) = mset (map n_id (received db u))"
    by (simp add: mset_latest_first)
  from mset_eq_imp_distinct_iff [OF this] assms show ?thesis
    by (simp add: received_def distinct_map_filter)
qed

lemma nonempty_ids_latest_first:
  assumes "[] \<notin> set (map n_id (notifications db))"
  shows "[] \<notin> set (map n_id (latest_first db u))"
  using assms by (simp add: latest_first_def received_def image_iff)

text \<open>
  C3. Let the identifiers of the notifications be a primary key (distinct, none empty),
  the types of the caller's notifications members of the enum, the caller signed in and
  the limit \<open>L\<close> between 1 and 100. On a fixed store, asking
  for the first page without a cursor and for each next page with the cursor returned
  before ends after at most \<open>N + 1\<close> requests, \<open>N\<close> the number of notifications
  addressed to the caller. The pages together hold every notification of the caller
  exactly once: their rows are the caller's notifications as a multiset, no identifier
  occurs twice, the concatenation is ordered by creation time descending, and no page
  has more than \<open>L\<close> items. (The store lists the rows in one and the same order for
  every request, see \<open>findMany\<close>.)
\<close>

theorem paginate_every_notification_once:
  assumes "1 \<le> L" and "L \<le> 100"
    and "session_user_id c \<noteq> []"
    and "distinct (map n_id (notifications db))"
    and "[] \<notin> set (map n_id (notifications db))"
    and "list_all (\<lambda>n. n_type n \<in> set NotificationType) (received db (session_user_id c))"
    and "length (received db (session_user_id c)) < fuel"
  shows "\<exists>pages. paginate fuel c L None db = Some (Inr pages) \<and>
           mset (map ni_row (concat pages)) = mset (received db (session_user_id c)) \<and>
           distinct (map (\<lambda>i. n_id (ni_row i)) (concat pages)) \<and>
           descending (map ni_row (concat pages)) \<and>
           list_all (\<lambda>p. length p \<le> nat L) pages"
proof -
  let ?u = "session_user_id c"
  have start: "start_at db ?u None = latest_first db ?u"
    by (simp add: start_at_def truthy_def)
  have whole: "latest_first db ?u = [] @ start_at db ?u None"
    by (simp add: start)
  have enough: "length (start_at db ?u None) < fuel"
    using assms(7) by (simp add: start length_latest_first)
  have valid: "list_all (\<lambda>n. n_type n \<in> set NotificationType) (latest_first db ?u)"
    using assms(6) by (simp only: list_all_latest_first)
  from paginate_from [OF assms(1-3) distinct_ids_latest_first [OF assms(4)]
      nonempty_ids_latest_first [OF assms(5)] valid whole enough]
  obtain pages where pages: "paginate fuel c L None db = Some (Inr pages)"
    "concat pages = map (include_relations db) (start_at db ?u None)"
    "list_all (\<lambda>p. length p \<le> nat L) pages"
    by (elim exE conjE)
  have rows: "map ni_row (concat pages) = latest_first db ?u"
    by (simp add: pages(2) start ni_row_include_relations)
  have ids: "map (\<lambda>i. n_id (ni_row i)) (concat pages) = map n_id (map ni_row (concat pages))"
    by simp
  show ?thesis
  proof (intro exI conjI)
    show "paginate fuel c L None db = Some (Inr pages)"
      by (rule pages(1))
    show "mset (map ni_row (concat pages)) = mset (received db ?u)"
      by (simp only: rows mset_latest_first)
    show "distinct (map (\<lambda>i. n_id (ni_row i)) (concat pages))"
      using distinct_ids_latest_first [OF assms(4), of ?u] by (simp only: ids rows)
    show "descending (map ni_row (concat pages))"
      by (simp only: rows descending_latest_first)
    show "list_all (\<lambda>p. length p \<le> nat L) pages"
      by (rule pages(3))
  qed
qed

theorem paginate_every_notification_once_witness:
  "\<exists>pages. paginate 4 \<lparr>session_user_id = ''u2''\<rparr> 1 None db_three = Some (Inr pages) \<and>
           mset (map ni_row (concat pages)) =
             mset [notification_n1, notification_n2, notification_n3] \<and>
           descending (map ni_row (concat pages)) \<and>
           list_all (\<lambda>p. length p \<le> 1) pages"
proof -
  have lim: "(1::int) \<le> 1" "(1::int) \<le> 100"
    by simp_all
  have auth: "session_user_id \<lparr>session_user_id = ''u2''\<rparr> \<noteq> []"
    by simp
  have dist: "distinct (map n_id (notifications db_three))"
    by (simp add: db_three_def empty_db_def notification_n1_def notification_n2_def
        notification_n3_def notification_n4_def)
  have nonempty: "[] \<notin> set (map n_id (notifications db_three))"
    by (simp add: db_three_def empty_db_def notification_n1_def notification_n2_def
        notification_n3_def notification_n4_def)
  have valid: "list_all (\<lambda>n. n_type n \<in> set NotificationType)
      (received db_three (session_user_id \<lparr>session_user_id = ''u2''\<rparr>))"
    by (simp add: received_db_three notification_n1_def notification_n2_def notification_n3_def
        NotificationType_def)
  have fuel: "length (received db_three (session_user_id \<lparr>session_user_id = ''u2''\<rparr>)) < 4"
    by (simp add: received_db_three)
  from paginate_every_notification_once [OF lim auth dist nonempty valid fuel] obtain pages where
    "paginate 4 \<lparr>session_user_id = ''u2''\<rparr> 1 None db_three = Some (Inr pages)"
    "mset (map ni_row (concat pages)) =
       mset (received db_three (session_user_id \<lparr>session_user_id = ''u2''\<rparr>))"
    "descending (map ni_row (concat pages))"
    "list_all (\<lambda>p. length p \<le> nat 1) pages"
    by blast
  then show ?thesis
    by (simp add: received_db_three)
qed

section \<open>Properties of getConversation\<close>

lemma filter_updateMany_untouched:
  assumes "\<And>x. keep x \<Longrightarrow> \<not> wh x" and "\<And>x. wh x \<Longrightarrow> \<not> keep (upd x)"
  shows "filter keep (updateMany wh upd rows) = filter keep rows"
  using assms by (induction rows) (auto simp: updateMany_def)

lemma getConversation_state:
  assumes "case lim of None \<Rightarrow> True | Some l \<Rightarrow> 1 \<le> l \<and> l \<le> 100"
  shows "snd (getConversation c \<lparr>gc_userId = v, gc_limit = lim, gc_cursor = cur\<rparr> now db) =
           db\<lparr>messages :=
                updateMany (\<lambda>m. m_senderId m = v \<and> m_receiverId m = session_user_id c \<and>
                                 m_readAt m = None)
                  (\<lambda>m. m\<lparr>m_readAt := Some now\<rparr>) (messages db)\<rparr>"
    and "\<exists>page. fst (getConversation c \<lparr>gc_userId = v, gc_limit = lim, gc_cursor = cur\<rparr> now db) =
           Inr page"
  using assms by (auto simp: getConversation_def Let_def split: option.splits)

text \<open>
  A conversation with another user: when \<open>v\<close> is not the caller \<open>u\<close>, a call with a
  valid limit sets \<^verbatim>\<open>readAt\<close> to the current time on the messages from \<open>v\<close> to \<open>u\<close>
  whose \<^verbatim>\<open>readAt\<close> was null and on no other row; the unread count of the conversation
  is 0 afterwards, the messages sent by \<open>u\<close> and all rows that are not from \<open>v\<close> to
  \<open>u\<close> are the ones before the call, and no other table changes.
\<close>

lemma getConversation_other_user:
  assumes "case lim of None \<Rightarrow> True | Some l \<Rightarrow> 1 \<le> l \<and> l \<le> 100"
    and "v \<noteq> session_user_id c"
  shows "messages (snd (getConversation c \<lparr>gc_userId = v, gc_limit = lim, gc_cursor = cur\<rparr> now db)) =
           map (\<lambda>m. if m_senderId m = v \<and> m_receiverId m = session_user_id c \<and> m_readAt m = None
                     then m\<lparr>m_readAt := Some now\<rparr> else m) (messages db)"
    and "unreadCount c v
           (snd (getConversation c \<lparr>gc_userId = v, gc_limit = lim, gc_cursor = cur\<rparr> now db)) = 0"
    and "filter (\<lambda>m. m_senderId m = session_user_id c)
           (messages (snd (getConversation c \<lparr>gc_userId = v, gc_limit = lim, gc_cursor = cur\<rparr> now db))) =
         filter (\<lambda>m. m_senderId m = session_user_id c) (messages db)"
    and "filter (\<lambda>m. \<not> (m_senderId m = v \<and> m_receiverId m = session_user_id c))
           (messages (snd (getConversation c \<lparr>gc_userId = v, gc_limit = lim, gc_cursor = cur\<rparr> now db))) =
         filter (\<lambda>m. \<not> (m_senderId m = v \<and> m_receiverId m = session_user_id c)) (messages db)"
    and "(snd (getConversation c \<lparr>gc_userId = v, gc_limit = lim, gc_cursor = cur\<rparr> now db))
           \<lparr>messages := messages db\<rparr> = db"
proof -
  let ?wh = "\<lambda>m. m_senderId m = v \<and> m_receiverId m = session_user_id c \<and> m_readAt m = None"
  let ?upd = "\<lambda>m. m\<lparr>m_readAt := Some now\<rparr>"
  let ?db' = "snd (getConversation c \<lparr>gc_userId = v, gc_limit = lim, gc_cursor = cur\<rparr> now db)"
  note state = getConversation_state [OF assms(1), of c v cur now db]
  have msgs: "messages ?db' = updateMany ?wh ?upd (messages db)"
    by (simp add: state(1))
  show "messages ?db' = map (\<lambda>m. if ?wh m then ?upd m else m) (messages db)"
    by (simp add: msgs updateMany_def)
  show "unreadCount c v ?db' = 0"
    by (simp add: unreadCount_def count_rows_def msgs updateMany_def filter_empty_conv)
  show "filter (\<lambda>m. m_senderId m = session_user_id c) (messages ?db') =
      filter (\<lambda>m. m_senderId m = session_user_id c) (messages db)"
    unfolding msgs using assms(2) by (intro filter_updateMany_untouched) auto
  show "filter (\<lambda>m. \<not> (m_senderId m = v \<and> m_receiverId m = session_user_id c)) (messages ?db') =
      filter (\<lambda>m. \<not> (m_senderId m = v \<and> m_receiverId m = session_user_id c)) (messages db)"
    unfolding msgs by (rule filter_updateMany_untouched) auto
  show "?db'\<lparr>messages := messages db\<rparr> = db"
    by (simp add: state(1))
qed

text \<open>
  C10. The claim fails on a call that the handler accepts: \<open>u1\<close> sends a message to the
  group \<open>g1\<close>, which \<^verbatim>\<open>sendToGroup\<close> stores with \<open>u1\<close> as sender and as receiver,
  and then calls \<^verbatim>\<open>getConversation(userId: u1)\<close>. The page is empty, since the query of
  the handler keeps direct messages only (\<^verbatim>\<open>groupId: null\<close>), and the unread count of
  the conversation, which carries the same filter, was 0 before the call. The bulk update
  has no such filter: it sets \<^verbatim>\<open>readAt\<close> on the group message, a message sent by the
  caller and of another conversation.
\<close>

theorem getConversation_marks_own_group_message:
  "sendToGroup \<lparr>session_user_id = ''u1''\<rparr>
     \<lparr>sg_groupId = ''g1'', sg_content = ''hi'', sg_contentType = None, sg_encrypted = None\<rparr>
     (''key'', ''ciphertext'') ''m1'' 100 db_group = (Inr message_m1, db_group_sent) \<and>
   m_senderId message_m1 = ''u1'' \<and>
   m_groupId message_m1 = Some ''g1'' \<and>
   m_readAt message_m1 = None \<and>
   unreadCount \<lparr>session_user_id = ''u1''\<rparr> ''u1'' db_group_sent = 0 \<and>
   getConversation \<lparr>session_user_id = ''u1''\<rparr>
     \<lparr>gc_userId = ''u1'', gc_limit = None, gc_cursor = None\<rparr> 200 db_group_sent =
     (Inr \<lparr>gc_messages = [], gc_nextCursor = None\<rparr>,
      db_group_sent\<lparr>messages := [message_m1\<lparr>m_readAt := Some 200\<rparr>]\<rparr>) \<and>
   message_m1\<lparr>m_readAt := Some 200\<rparr> \<noteq> message_m1"
  by (simp add: sendToGroup_def getConversation_def unreadCount_def count_rows_def Let_def
      findFirst_def create_def updateMany_def findMany_def truthy_def db_group_sent_def
      db_group_def empty_db_def member_u1_g1_def message_m1_def)

end
